theory Spec2Isabelle
  imports Complex_Main
begin

section \<open>Geometry values and the primitives handed to the host\<close>

text \<open>
  The descriptors come from the upstream geometry library. Arcs, line segments and
  meshes are only passed through by the code under study, so their types are kept
  as type parameters (\<open>'arc\<close>, \<open>'seg\<close>, \<open>'mesh\<close>). Points are read by coordinate
  (\<open>pt.x\<close>, \<open>pt.y\<close>).
  Python numbers are carried by \<open>real\<close>. The code applies two operations of
  Python to them, \<open>str\<close> and \<open>/\<close>; what these return depends on the interpreter
  and on the number (\<open>/\<close> rounds on floats and, on two integers, is true or floor
  division according to the Python version), so both are parameters of the model
  and nothing is assumed about them.
\<close>

datatype Point2D = Point2D (pt_x: real) (pt_y: real)

datatype Point3D = Point3D real real real

text \<open>\<open>Plane(o=...)\<close> as the source calls it: only the origin is given.\<close>

datatype Plane = Plane (origin: Point3D)

text \<open>
  Modelled from the spec: the converters \<open>from_mesh3d\<close>, \<open>from_arc2d\<close>,
  \<open>from_linesegment2d\<close> (module \<open>fromgeometry\<close>) and \<open>text_objects\<close> (module
  \<open>text\<close>) are imported by \<open>fromobjects.py\<close> but their modules are not part of the
  sources at hand. The spec describes the output element as a closed discriminated
  set {Mesh, Arc, LineSegment, Label}; each converter is therefore the constructor
  that records the arguments of the call. The two alignment arguments of
  \<open>text_objects\<close> are optional in the calls of the source, so they are
  \<open>int option\<close>, \<open>None\<close> standing for an argument that was not passed.
\<close>

datatype ('mesh, 'arc, 'seg) primitive =
    Mesh 'mesh
  | Arc 'arc real
  | LineSegment 'seg real
  | Label (label_text: string) (label_plane: Plane) (label_height: real) (label_font: string)
      (horizontal_alignment: "int option") (vertical_alignment: "int option")

definition from_mesh3d :: "'mesh \<Rightarrow> ('mesh, 'arc, 'seg) primitive" where
  "from_mesh3d mesh = Mesh mesh"

definition from_arc2d :: "'arc \<Rightarrow> real \<Rightarrow> ('mesh, 'arc, 'seg) primitive" where
  "from_arc2d arc z = Arc arc z"

definition from_linesegment2d :: "'seg \<Rightarrow> real \<Rightarrow> ('mesh, 'arc, 'seg) primitive" where
  "from_linesegment2d line z = LineSegment line z"

definition text_objects ::
  "string \<Rightarrow> Plane \<Rightarrow> real \<Rightarrow> string \<Rightarrow> int option \<Rightarrow> int option
    \<Rightarrow> ('mesh, 'arc, 'seg) primitive" where
  "text_objects txt pl h fnt h_align v_align = Label txt pl h fnt h_align v_align"

fun is_Label :: "('mesh, 'arc, 'seg) primitive \<Rightarrow> bool" where
  "is_Label (Label _ _ _ _ _ _) = True"
| "is_Label _ = False"

text \<open>
  The loop \<^verbatim>\<open>for v in vs: result.append(f(v))\<close>: one append per element, in
  the order of the sequence.
\<close>

definition append_each :: "('v \<Rightarrow> 'p) \<Rightarrow> 'v list \<Rightarrow> 'p list \<Rightarrow> 'p list" where
  "append_each f vs result = foldl (\<lambda>res v. res @ [f v]) result vs"


section \<open>\<open>fromobjects.legend_objects\<close>\<close>

record legend_parameters =
  text_height :: real
  font :: string
  continuous_legend :: bool
  vertical :: bool

record 'mesh legend =
  legend_parameters :: legend_parameters
  segment_mesh :: 'mesh
  title :: string
  title_location :: Plane
  segment_text :: "string list"
  segment_text_location :: "Plane list"

text \<open>
  The three list comprehensions of the source run over
  \<open>zip(legend.segment_text, legend.segment_text_location)\<close>; Python's \<open>zip\<close> stops
  at the shorter sequence, as \<^const>\<open>zip\<close> does. The title is built with four
  arguments only.
\<close>

definition legend_objects :: "'mesh legend \<Rightarrow> ('mesh, 'arc, 'seg) primitive list" where
  "legend_objects legend =
     (let l_height = text_height (legend_parameters legend);
          l_font = font (legend_parameters legend);
          legend_mesh = from_mesh3d (segment_mesh legend);
          legend_title = text_objects (title legend) (title_location legend)
                           l_height l_font None None;
          legend_text =
            (if \<not> continuous_legend (legend_parameters legend) then
               map (\<lambda>(txt, loc). text_objects txt loc l_height l_font (Some 0) (Some 5))
                 (zip (segment_text legend) (segment_text_location legend))
             else if vertical (legend_parameters legend) then
               map (\<lambda>(txt, loc). text_objects txt loc l_height l_font (Some 0) (Some 3))
                 (zip (segment_text legend) (segment_text_location legend))
             else
               map (\<lambda>(txt, loc). text_objects txt loc l_height l_font (Some 1) (Some 5))
                 (zip (segment_text legend) (segment_text_location legend)))
      in [legend_mesh] @ [legend_title] @ legend_text)"


section \<open>\<open>str.title\<close> on byte strings\<close>

text \<open>
  \<open>projection.title()\<close>: a cased character that follows an uncased one (or starts
  the string) is made upper case, a cased character that follows a cased one is
  made lower case, every other character is kept. Characters are 8-bit and only
  the ASCII letters are cased.
\<close>

definition isupper :: "char \<Rightarrow> bool" where
  "isupper c = (65 \<le> (of_char c :: nat) \<and> (of_char c :: nat) \<le> 90)"

definition islower :: "char \<Rightarrow> bool" where
  "islower c = (97 \<le> (of_char c :: nat) \<and> (of_char c :: nat) \<le> 122)"

definition toupper :: "char \<Rightarrow> char" where
  "toupper c = (if islower c then char_of ((of_char c :: nat) - 32) else c)"

definition tolower :: "char \<Rightarrow> char" where
  "tolower c = (if isupper c then char_of ((of_char c :: nat) + 32) else c)"

fun title_from :: "bool \<Rightarrow> string \<Rightarrow> string" where
  "title_from previous_is_cased [] = []"
| "title_from previous_is_cased (c # cs) =
     (if islower c then
        (if previous_is_cased then c else toupper c) # title_from True cs
      else if isupper c then
        (if previous_is_cased then tolower c else c) # title_from True cs
      else c # title_from False cs)"

definition str_title :: "string \<Rightarrow> string" where
  "str_title s = title_from False s"

text \<open>\<open>str.lower\<close>, used to say that two names differ in casing only.\<close>

definition str_lower :: "string \<Rightarrow> string" where
  "str_lower s = map tolower s"


section \<open>\<open>fromobjects.compass_objects\<close>\<close>

text \<open>
  The compass is read through its attributes and its two methods
  \<open>ticks_from_angles\<close> and \<open>label_points_from_angles\<close>, which are fields holding
  functions.
\<close>

record ('arc, 'seg) compass =
  radius :: real
  all_boundary_circles :: "'arc list"
  major_azimuth_ticks :: "'seg list"
  major_azimuth_points :: "Point2D list"
  MAJOR_TEXT :: "string list"
  minor_azimuth_ticks :: "'seg list"
  minor_azimuth_points :: "Point2D list"
  MINOR_TEXT :: "string list"
  ALTITUDES :: "real list"
  orthographic_altitude_circles :: "'arc list"
  orthographic_altitude_points :: "Point2D list"
  stereographic_altitude_circles :: "'arc list"
  stereographic_altitude_points :: "Point2D list"
  ticks_from_angles :: "real list \<Rightarrow> 'seg list"
  label_points_from_angles :: "real list \<Rightarrow> Point2D list"

text \<open>
  Lines 87 and 88: the two text heights, \<open>compass.radius / 20\<close> and
  \<open>maj_txt / 2\<close>. \<open>py_div\<close> is Python's \<open>/\<close>, taken as a parameter.
\<close>

definition maj_txt :: "(real \<Rightarrow> real \<Rightarrow> real) \<Rightarrow> ('arc, 'seg) compass \<Rightarrow> real" where
  "maj_txt py_div compass = py_div (radius compass) 20"

definition min_txt :: "(real \<Rightarrow> real \<Rightarrow> real) \<Rightarrow> ('arc, 'seg) compass \<Rightarrow> real" where
  "min_txt py_div compass = py_div (maj_txt py_div compass) 2"

text \<open>The label built at a 2D point lifted to height \<open>z\<close>.\<close>

definition label_at ::
  "string \<Rightarrow> Point2D \<Rightarrow> real \<Rightarrow> real \<Rightarrow> string \<Rightarrow> int \<Rightarrow> int
    \<Rightarrow> ('mesh, 'arc, 'seg) primitive" where
  "label_at txt pt z h fnt h_align v_align =
     text_objects txt (Plane (Point3D (pt_x pt) (pt_y pt) z)) h fnt (Some h_align) (Some v_align)"

text \<open>Lines 90 to 92: the boundary circles.\<close>

definition boundary_block ::
  "('arc, 'seg) compass \<Rightarrow> real \<Rightarrow> ('mesh, 'arc, 'seg) primitive list
    \<Rightarrow> ('mesh, 'arc, 'seg) primitive list" where
  "boundary_block compass z result =
     append_each (\<lambda>circle. from_arc2d circle z) (all_boundary_circles compass) result"

text \<open>
  Lines 95 to 111: the azimuth ticks and labels. \<open>str\<close> is Python's builtin
  conversion of a number to text, taken as a parameter like \<open>py_div\<close>.
\<close>

definition azimuth_block ::
  "(real \<Rightarrow> string) \<Rightarrow> (real \<Rightarrow> real \<Rightarrow> real) \<Rightarrow> ('arc, 'seg) compass \<Rightarrow> real
    \<Rightarrow> real list option \<Rightarrow> string
    \<Rightarrow> ('mesh, 'arc, 'seg) primitive list \<Rightarrow> ('mesh, 'arc, 'seg) primitive list" where
  "azimuth_block str py_div compass z custom_angles fnt result =
     (case custom_angles of
        None \<Rightarrow>
          (let result1 = append_each (\<lambda>line. from_linesegment2d line z)
                           (major_azimuth_ticks compass) result;
               result2 = append_each
                           (\<lambda>(txt, pt). label_at txt pt z (maj_txt py_div compass) fnt 1 3)
                           (zip (MAJOR_TEXT compass) (major_azimuth_points compass)) result1;
               result3 = append_each (\<lambda>line. from_linesegment2d line z)
                           (minor_azimuth_ticks compass) result2
           in append_each
                (\<lambda>(txt, pt). label_at txt pt z (min_txt py_div compass) fnt 1 3)
                (zip (MINOR_TEXT compass) (minor_azimuth_points compass)) result3)
      | Some angles \<Rightarrow>
          (let result1 = append_each (\<lambda>line. from_linesegment2d line z)
                           (ticks_from_angles compass angles) result
           in append_each
                (\<lambda>(txt, pt). label_at (str txt) pt z (maj_txt py_div compass) fnt 1 3)
                (zip angles (label_points_from_angles compass angles)) result1))"

text \<open>Lines 114 to 126: the altitude circles and labels.\<close>

definition altitude_block ::
  "(real \<Rightarrow> string) \<Rightarrow> (real \<Rightarrow> real \<Rightarrow> real) \<Rightarrow> ('arc, 'seg) compass \<Rightarrow> real
    \<Rightarrow> string option \<Rightarrow> string
    \<Rightarrow> ('mesh, 'arc, 'seg) primitive list \<Rightarrow> ('mesh, 'arc, 'seg) primitive list" where
  "altitude_block str py_div compass z projection fnt result =
     (case projection of
        None \<Rightarrow> result
      | Some name \<Rightarrow>
          if str_title name = ''Orthographic'' then
            (let result1 = append_each (\<lambda>circle. from_arc2d circle z)
                             (orthographic_altitude_circles compass) result
             in append_each
                  (\<lambda>(txt, pt). label_at (str txt) pt z (min_txt py_div compass) fnt 1 0)
                  (zip (ALTITUDES compass) (orthographic_altitude_points compass)) result1)
          else if str_title name = ''Stereographic'' then
            (let result1 = append_each (\<lambda>circle. from_arc2d circle z)
                             (stereographic_altitude_circles compass) result
             in append_each
                  (\<lambda>(txt, pt). label_at (str txt) pt z (min_txt py_div compass) fnt 1 0)
                  (zip (ALTITUDES compass) (stereographic_altitude_points compass)) result1)
          else result)"

text \<open>
  The whole function: \<open>result\<close> starts empty and the three parts append to it in
  turn. The defaults of the source are \<open>z = 0\<close>, \<open>custom_angles = None\<close>,
  \<open>projection = None\<close> and \<open>font = 'Arial'\<close>.
\<close>

definition compass_objects ::
  "(real \<Rightarrow> string) \<Rightarrow> (real \<Rightarrow> real \<Rightarrow> real) \<Rightarrow> ('arc, 'seg) compass \<Rightarrow> real
    \<Rightarrow> real list option \<Rightarrow> string option
    \<Rightarrow> string \<Rightarrow> ('mesh, 'arc, 'seg) primitive list" where
  "compass_objects str py_div compass z custom_angles projection fnt =
     altitude_block str py_div compass z projection fnt
       (azimuth_block str py_div compass z custom_angles fnt
         (boundary_block compass z []))"


section \<open>\<open>config.conversion_factor\<close>\<close>

datatype error = ValueError string

text \<open>
  \<open>s.split(sep)\<close> for a one-character separator; \<open>cur\<close> is the piece being read.
  The result always has at least one piece, so \<open>[-1]\<close> is its last one.
\<close>

fun split_from :: "char \<Rightarrow> string \<Rightarrow> string \<Rightarrow> string list" where
  "split_from sep cur [] = [cur]"
| "split_from sep cur (c # cs) =
     (if c = sep then cur # split_from sep [] cs else split_from sep (cur @ [c]) cs)"

definition str_split :: "string \<Rightarrow> char \<Rightarrow> string list" where
  "str_split s sep = split_from sep [] s"

text \<open>
  The host document is the one input: \<open>None\<close> when importing \<open>scriptcontext\<close>
  raises ImportError, otherwise the text \<open>str(scriptcontext.doc.ModelUnitSystem)\<close>.
\<close>

definition units_system :: "string option \<Rightarrow> string" where
  "units_system host =
     (case host of
        Some model_unit_system \<Rightarrow> last (str_split model_unit_system CHR ''.'')
      | None \<Rightarrow> ''Meters'')"

definition conversion_factor :: "string option \<Rightarrow> error + real" where
  "conversion_factor host =
     (let units = (case host of
                     Some model_unit_system \<Rightarrow> last (str_split model_unit_system CHR ''.'')
                   | None \<Rightarrow> ''Meters'')
      in if units = ''Meters'' then Inr 1.0
         else if units = ''Millimeters'' then Inr 0.001
         else if units = ''Feet'' then Inr 0.305
         else if units = ''Inches'' then Inr 0.0254
         else if units = ''Centimeters'' then Inr 0.01
         else Inl (ValueError
                (''You're kidding me! What units are you using?'' @ units @ ''?'' @ [CHR 0x0A]
                 @ ''Please use Meters, Millimeters, Centimeters, Feet or Inches.'')))"


section \<open>The justification table of the legend\<close>

text \<open>
  The documented table of (horizontal, vertical) justification codes of a segment
  label, one row per pair (\<open>continuous_legend\<close>, \<open>vertical\<close>): left/middle when the
  legend is not continuous, left/top when it is continuous and vertical,
  center/middle when it is continuous and horizontal.
\<close>

fun justification_table :: "bool \<Rightarrow> bool \<Rightarrow> int \<times> int" where
  "justification_table False False = (0, 5)"
| "justification_table False True = (0, 5)"
| "justification_table True True = (0, 3)"
| "justification_table True False = (1, 5)"


section \<open>Concrete descriptors\<close>

text \<open>
  A legend with two segments, a legend whose two sequences differ in length, and a
  compass with three boundary circles, two major and one minor azimuth, and two
  altitude circles per projection. Arcs and meshes are numbered; a tick is named
  by its angle. On these descriptors \<open>str\<close> is the table \<open>str_table\<close> and
  \<open>py_div\<close> is exact division.
\<close>

definition example_legend :: "bool \<Rightarrow> bool \<Rightarrow> nat legend" where
  "example_legend c v =
     \<lparr>legend_parameters =
        \<lparr>text_height = 2, font = ''Arial'', continuous_legend = c, vertical = v\<rparr>,
      segment_mesh = 7,
      title = ''Temperature'',
      title_location = Plane (Point3D 0 0 0),
      segment_text = [''0'', ''10''],
      segment_text_location = [Plane (Point3D 1 0 0), Plane (Point3D 1 1 0)]\<rparr>"

definition ragged_legend :: "nat legend" where
  "ragged_legend =
     \<lparr>legend_parameters =
        \<lparr>text_height = 2, font = ''Arial'', continuous_legend = True, vertical = True\<rparr>,
      segment_mesh = 7,
      title = ''Temperature'',
      title_location = Plane (Point3D 0 0 0),
      segment_text = [''0'', ''10'', ''20''],
      segment_text_location = [Plane (Point3D 1 0 0), Plane (Point3D 1 1 0)]\<rparr>"

definition str_table :: "real \<Rightarrow> string" where
  "str_table a = (if a = 10 then ''10'' else if a = 20 then ''20''
                  else if a = 45 then ''45'' else if a = 90 then ''90'' else ''?'')"

definition example_compass :: "(nat, real) compass" where
  "example_compass =
     \<lparr>radius = 100,
      all_boundary_circles = [1, 2, 3],
      major_azimuth_ticks = [0, 180],
      major_azimuth_points = [Point2D 0 110, Point2D 0 (-110)],
      MAJOR_TEXT = [''N'', ''S''],
      minor_azimuth_ticks = [45],
      minor_azimuth_points = [Point2D 78 78],
      MINOR_TEXT = [''NE''],
      ALTITUDES = [10, 20],
      orthographic_altitude_circles = [4, 5],
      orthographic_altitude_points = [Point2D 0 98, Point2D 0 94],
      stereographic_altitude_circles = [6, 7],
      stereographic_altitude_points = [Point2D 0 84, Point2D 0 70],
      ticks_from_angles = (\<lambda>angles. angles),
      label_points_from_angles = map (\<lambda>a. Point2D a 110)\<rparr>"


section \<open>Loops as maps\<close>

lemma append_each_map: "append_each f vs result = result @ map f vs"
  unfolding append_each_def by (induction vs arbitrary: result) simp_all


section \<open>Casing and \<open>str.title\<close>\<close>

lemma of_char_tolower:
  "(of_char (tolower c) :: nat) = (if isupper c then of_char c + 32 else of_char c)"
  by (simp add: tolower_def isupper_def)

lemma tolower_not_upper: "\<not> isupper c \<Longrightarrow> tolower c = c"
  by (simp add: tolower_def)

lemma islower_tolower: "isupper c \<Longrightarrow> islower (tolower c)"
  by (simp add: islower_def of_char_tolower) (simp add: isupper_def)

lemma toupper_tolower: "isupper c \<Longrightarrow> toupper (tolower c) = c"
proof -
  assume u: "isupper c"
  have "toupper (tolower c) = char_of ((of_char (tolower c) :: nat) - 32)"
    using islower_tolower [OF u] by (simp add: toupper_def)
  also have "\<dots> = char_of (of_char c :: nat)"
    using u by (simp add: of_char_tolower)
  finally show ?thesis by simp
qed

text \<open>Title-casing does not see the casing of its input.\<close>

lemma title_from_tolower: "title_from b (map tolower s) = title_from b s"
proof (induction s arbitrary: b)
  case Nil
  show ?case by simp
next
  case (Cons c cs)
  show ?case
  proof (cases "isupper c")
    case True
    then have "\<not> islower c" by (simp add: isupper_def islower_def)
    with True show ?thesis
      by (simp add: Cons.IH islower_tolower toupper_tolower)
  next
    case False
    then show ?thesis by (simp add: Cons.IH tolower_not_upper)
  qed
qed

lemma str_title_lower: "str_title (str_lower s) = str_title s"
  by (simp add: str_title_def str_lower_def title_from_tolower)

lemma str_title_casing: "str_lower p = str_lower q \<Longrightarrow> str_title p = str_title q"
  by (metis str_title_lower)

lemma str_title_orthographic: "str_title ''orthographic'' = ''Orthographic''"
  by code_simp

lemma str_title_stereographic: "str_title ''stereographic'' = ''Stereographic''"
  by code_simp

section \<open>The legend as a list\<close>

lemma legend_objects_eq:
  "legend_objects legend =
     Mesh (segment_mesh legend)
     # Label (title legend) (title_location legend) (text_height (legend_parameters legend))
         (font (legend_parameters legend)) None None
     # map (\<lambda>(txt, loc). Label txt loc (text_height (legend_parameters legend))
             (font (legend_parameters legend))
             (Some (if \<not> continuous_legend (legend_parameters legend) then 0
                    else if vertical (legend_parameters legend) then 0 else 1))
             (Some (if \<not> continuous_legend (legend_parameters legend) then 5
                    else if vertical (legend_parameters legend) then 3 else 5)))
         (zip (segment_text legend) (segment_text_location legend))"
  by (simp add: legend_objects_def Let_def from_mesh3d_def text_objects_def)

lemma zip_take_min:
  "zip (take (min (length xs) (length ys)) xs) (take (min (length xs) (length ys)) ys) = zip xs ys"
proof -
  have "take (min (length xs) (length ys)) (zip xs ys) = zip xs ys" by simp
  then show ?thesis by (simp only: take_zip)
qed

lemma legend_objects_zip_cong:
  assumes "zip (segment_text a) (segment_text_location a)
             = zip (segment_text b) (segment_text_location b)"
    and "legend_parameters a = legend_parameters b" and "segment_mesh a = segment_mesh b"
    and "title a = title b" and "title_location a = title_location b"
  shows "legend_objects a = legend_objects b"
  using assms by (simp add: legend_objects_eq)


section \<open>The three parts of the compass as lists\<close>

lemma boundary_block_eq:
  "boundary_block c z result =
     result @ map (\<lambda>circle. from_arc2d circle z) (all_boundary_circles c)"
  by (simp add: boundary_block_def append_each_map)

lemma azimuth_block_None:
  "azimuth_block str py_div c z None fnt result =
     result
     @ map (\<lambda>line. from_linesegment2d line z) (major_azimuth_ticks c)
     @ map (\<lambda>(txt, pt). label_at txt pt z (maj_txt py_div c) fnt 1 3)
         (zip (MAJOR_TEXT c) (major_azimuth_points c))
     @ map (\<lambda>line. from_linesegment2d line z) (minor_azimuth_ticks c)
     @ map (\<lambda>(txt, pt). label_at txt pt z (min_txt py_div c) fnt 1 3)
         (zip (MINOR_TEXT c) (minor_azimuth_points c))"
  by (simp add: azimuth_block_def Let_def append_each_map)

lemma azimuth_block_Some:
  "azimuth_block str py_div c z (Some angles) fnt result =
     result
     @ map (\<lambda>line. from_linesegment2d line z) (ticks_from_angles c angles)
     @ map (\<lambda>(txt, pt). label_at (str txt) pt z (maj_txt py_div c) fnt 1 3)
         (zip angles (label_points_from_angles c angles))"
  by (simp add: azimuth_block_def Let_def append_each_map)

lemma altitude_block_None: "altitude_block str py_div c z None fnt result = result"
  by (simp add: altitude_block_def)

lemma altitude_block_orthographic:
  "str_title name = ''Orthographic'' \<Longrightarrow>
   altitude_block str py_div c z (Some name) fnt result =
     result
     @ map (\<lambda>circle. from_arc2d circle z) (orthographic_altitude_circles c)
     @ map (\<lambda>(txt, pt). label_at (str txt) pt z (min_txt py_div c) fnt 1 0)
         (zip (ALTITUDES c) (orthographic_altitude_points c))"
  by (simp add: altitude_block_def Let_def append_each_map)

lemma altitude_block_stereographic:
  "str_title name = ''Stereographic'' \<Longrightarrow>
   altitude_block str py_div c z (Some name) fnt result =
     result
     @ map (\<lambda>circle. from_arc2d circle z) (stereographic_altitude_circles c)
     @ map (\<lambda>(txt, pt). label_at (str txt) pt z (min_txt py_div c) fnt 1 0)
         (zip (ALTITUDES c) (stereographic_altitude_points c))"
  by (simp add: altitude_block_def Let_def append_each_map)

lemma altitude_block_other:
  "str_title name \<noteq> ''Orthographic'' \<Longrightarrow> str_title name \<noteq> ''Stereographic'' \<Longrightarrow>
   altitude_block str py_div c z (Some name) fnt result = result"
  by (simp add: altitude_block_def)

section \<open>Claims about the legend\<close>

text \<open>
  Claim C7. A legend whose segment texts and segment locations both have \<open>n\<close>
  entries yields exactly \<open>n + 2\<close> primitives: the mesh converted from
  \<open>segment_mesh\<close> at index 0, the title label at \<open>title_location\<close> at index 1,
  and at index \<open>i + 2\<close> the label of segment \<open>i\<close>.
\<close>

theorem legend_objects_layout:
  assumes "length (segment_text legend) = n"
    and "length (segment_text_location legend) = n"
  shows "length (legend_objects legend :: ('mesh, 'arc, 'seg) primitive list) = n + 2
    \<and> legend_objects legend ! 0 = from_mesh3d (segment_mesh legend)
    \<and> legend_objects legend ! 1 =
        text_objects (title legend) (title_location legend)
          (text_height (legend_parameters legend)) (font (legend_parameters legend)) None None
    \<and> (\<forall>i<n. is_Label (legend_objects legend ! (i + 2))
          \<and> label_text (legend_objects legend ! (i + 2)) = segment_text legend ! i
          \<and> label_plane (legend_objects legend ! (i + 2)) = segment_text_location legend ! i
          \<and> label_height (legend_objects legend ! (i + 2)) = text_height (legend_parameters legend)
          \<and> label_font (legend_objects legend ! (i + 2)) = font (legend_parameters legend))"
  using assms by (simp add: legend_objects_eq from_mesh3d_def text_objects_def)

theorem legend_objects_layout_witness:
  "length (legend_objects (example_legend False True) :: (nat, nat, real) primitive list) = 4
   \<and> (legend_objects (example_legend False True) :: (nat, nat, real) primitive list) ! 0 = Mesh 7
   \<and> (legend_objects (example_legend False True) :: (nat, nat, real) primitive list) ! 1
       = Label ''Temperature'' (Plane (Point3D 0 0 0)) 2 ''Arial'' None None
   \<and> label_text ((legend_objects (example_legend False True)
                    :: (nat, nat, real) primitive list) ! 3) = ''10''"
  using legend_objects_layout [of "example_legend False True" 2,
      where ?'arc = nat and ?'seg = real]
  by (simp add: example_legend_def legend_objects_eq from_mesh3d_def text_objects_def)

text \<open>
  Claim C8. The justification codes of every segment label are given by the
  table: they depend on \<open>continuous_legend\<close> and \<open>vertical\<close> only, a legend that is
  not continuous gives left (0) / middle (5) whatever \<open>vertical\<close> is, a continuous
  vertical one gives left (0) / top (3), a continuous horizontal one gives
  center (1) / middle (5).
\<close>

theorem legend_text_justification:
  "\<forall>p \<in> set (drop 2 (legend_objects legend :: ('mesh, 'arc, 'seg) primitive list)).
     is_Label p
     \<and> horizontal_alignment p =
         Some (fst (justification_table (continuous_legend (legend_parameters legend))
                      (vertical (legend_parameters legend))))
     \<and> vertical_alignment p =
         Some (snd (justification_table (continuous_legend (legend_parameters legend))
                      (vertical (legend_parameters legend))))"
  by (cases "continuous_legend (legend_parameters legend)";
      cases "vertical (legend_parameters legend)")
     (auto simp: legend_objects_eq)

theorem legend_text_justification_witness:
  "map (\<lambda>p. (horizontal_alignment p, vertical_alignment p))
     (drop 2 (legend_objects (example_legend False False) :: (nat, nat, real) primitive list))
     = [(Some 0, Some 5), (Some 0, Some 5)]
   \<and> map (\<lambda>p. (horizontal_alignment p, vertical_alignment p))
     (drop 2 (legend_objects (example_legend False True) :: (nat, nat, real) primitive list))
     = [(Some 0, Some 5), (Some 0, Some 5)]
   \<and> map (\<lambda>p. (horizontal_alignment p, vertical_alignment p))
     (drop 2 (legend_objects (example_legend True True) :: (nat, nat, real) primitive list))
     = [(Some 0, Some 3), (Some 0, Some 3)]
   \<and> map (\<lambda>p. (horizontal_alignment p, vertical_alignment p))
     (drop 2 (legend_objects (example_legend True False) :: (nat, nat, real) primitive list))
     = [(Some 1, Some 5), (Some 1, Some 5)]"
  using legend_text_justification [of "example_legend False False",
      where ?'arc = nat and ?'seg = real]
    legend_text_justification [of "example_legend False True",
      where ?'arc = nat and ?'seg = real]
    legend_text_justification [of "example_legend True True",
      where ?'arc = nat and ?'seg = real]
    legend_text_justification [of "example_legend True False",
      where ?'arc = nat and ?'seg = real]
  by (simp add: example_legend_def legend_objects_eq)

text \<open>
  Claim C10. When the segment texts and the segment locations differ in length,
  the legend is still built: the pairs are taken by index up to the shorter
  sequence, the result has \<open>2 + min\<close> of the two lengths primitives, and it is the
  result for the two sequences cut to that length.
\<close>

theorem legend_objects_unequal:
  assumes "length (segment_text legend) \<noteq> length (segment_text_location legend)"
  shows "length (legend_objects legend :: ('mesh, 'arc, 'seg) primitive list) =
           2 + min (length (segment_text legend)) (length (segment_text_location legend))
    \<and> (legend_objects legend :: ('mesh, 'arc, 'seg) primitive list) =
        legend_objects (legend\<lparr>
          segment_text :=
            take (min (length (segment_text legend)) (length (segment_text_location legend)))
              (segment_text legend),
          segment_text_location :=
            take (min (length (segment_text legend)) (length (segment_text_location legend)))
              (segment_text_location legend)\<rparr>)"
proof
  show "length (legend_objects legend :: ('mesh, 'arc, 'seg) primitive list) =
           2 + min (length (segment_text legend)) (length (segment_text_location legend))"
    by (simp add: legend_objects_eq)
  show "(legend_objects legend :: ('mesh, 'arc, 'seg) primitive list) =
        legend_objects (legend\<lparr>
          segment_text :=
            take (min (length (segment_text legend)) (length (segment_text_location legend)))
              (segment_text legend),
          segment_text_location :=
            take (min (length (segment_text legend)) (length (segment_text_location legend)))
              (segment_text_location legend)\<rparr>)"
    by (rule legend_objects_zip_cong) (simp_all add: zip_take_min del: take_zip)
qed

theorem legend_objects_unequal_witness:
  "length (segment_text ragged_legend) \<noteq> length (segment_text_location ragged_legend)
   \<and> (legend_objects ragged_legend :: (nat, nat, real) primitive list) =
       [Mesh 7,
        Label ''Temperature'' (Plane (Point3D 0 0 0)) 2 ''Arial'' None None,
        Label ''0'' (Plane (Point3D 1 0 0)) 2 ''Arial'' (Some 0) (Some 3),
        Label ''10'' (Plane (Point3D 1 1 0)) 2 ''Arial'' (Some 0) (Some 3)]
   \<and> length (legend_objects ragged_legend :: (nat, nat, real) primitive list) = 2 + min 3 2"
proof -
  have h: "length (segment_text ragged_legend) \<noteq> length (segment_text_location ragged_legend)"
    by (simp add: ragged_legend_def)
  show ?thesis
    using h legend_objects_unequal [OF h, where ?'arc = nat and ?'seg = real]
    by (simp add: ragged_legend_def legend_objects_eq)
qed

section \<open>Claims about the unit conversion\<close>

lemma split_from_not_Nil: "split_from sep cur s \<noteq> []"
  by (induction s arbitrary: cur) simp_all

text \<open>
  Claim C9. The conversion factor is 1.0 exactly for Meters, 0.001 for
  Millimeters, 0.305 for Feet, 0.0254 for Inches and 0.01 for Centimeters; a
  ValueError is raised exactly when the unit name is none of the five; without a
  host document the unit is Meters and the factor 1.0.
\<close>

theorem conversion_factor_units:
  "(conversion_factor host = Inr 1.0 \<longleftrightarrow> units_system host = ''Meters'')
   \<and> (conversion_factor host = Inr 0.001 \<longleftrightarrow> units_system host = ''Millimeters'')
   \<and> (conversion_factor host = Inr 0.305 \<longleftrightarrow> units_system host = ''Feet'')
   \<and> (conversion_factor host = Inr 0.0254 \<longleftrightarrow> units_system host = ''Inches'')
   \<and> (conversion_factor host = Inr 0.01 \<longleftrightarrow> units_system host = ''Centimeters'')
   \<and> (isl (conversion_factor host) \<longleftrightarrow>
        units_system host \<notin> {''Meters'', ''Millimeters'', ''Feet'', ''Inches'', ''Centimeters''})
   \<and> units_system None = ''Meters''
   \<and> conversion_factor None = Inr 1.0"
  by (simp add: conversion_factor_def units_system_def Let_def split: option.splits)

theorem conversion_factor_units_witness:
  "conversion_factor (Some ''UnitSystem.Feet'') = Inr 0.305
   \<and> conversion_factor (Some ''Millimeters'') = Inr 0.001
   \<and> isl (conversion_factor (Some ''UnitSystem.Yards''))
   \<and> conversion_factor None = Inr 1"
  using conversion_factor_units [of "Some ''UnitSystem.Feet''"]
    conversion_factor_units [of "Some ''Millimeters''"]
    conversion_factor_units [of "Some ''UnitSystem.Yards''"]
    conversion_factor_units [of None]
  by (simp add: units_system_def str_split_def)


section \<open>Claims about the compass\<close>

lemma compass_objects_None_None:
  "compass_objects str py_div c z None None fnt =
     map (\<lambda>circle. from_arc2d circle z) (all_boundary_circles c)
     @ map (\<lambda>line. from_linesegment2d line z) (major_azimuth_ticks c)
     @ map (\<lambda>(txt, pt). label_at txt pt z (maj_txt py_div c) fnt 1 3)
         (zip (MAJOR_TEXT c) (major_azimuth_points c))
     @ map (\<lambda>line. from_linesegment2d line z) (minor_azimuth_ticks c)
     @ map (\<lambda>(txt, pt). label_at txt pt z (min_txt py_div c) fnt 1 3)
         (zip (MINOR_TEXT c) (minor_azimuth_points c))"
  by (simp add: compass_objects_def boundary_block_eq azimuth_block_None altitude_block_None)

text \<open>
  Claim C1. With three boundary circles, \<open>major_count\<close> major ticks, texts and
  points and \<open>minor_count\<close> minor ticks, texts and points, the call with
  \<open>custom_angles = None\<close> and \<open>projection = None\<close> returns
  \<open>3 + 2 * major_count + 2 * minor_count\<close> primitives: the three arcs of the
  boundary circles, the major tick lines, the major labels of height \<open>maj_txt\<close>
  justified center (1) / top (3), the minor tick lines, and the minor labels of
  height \<open>min_txt\<close> with the same justification.
\<close>

theorem compass_objects_default_layout:
  assumes "length (all_boundary_circles c) = 3"
    and "length (major_azimuth_ticks c) = major_count"
    and "length (MAJOR_TEXT c) = major_count"
    and "length (major_azimuth_points c) = major_count"
    and "length (minor_azimuth_ticks c) = minor_count"
    and "length (MINOR_TEXT c) = minor_count"
    and "length (minor_azimuth_points c) = minor_count"
  shows "length (compass_objects str py_div c z None None fnt :: ('mesh, 'arc, 'seg) primitive list)
           = 3 + 2 * major_count + 2 * minor_count
    \<and> (compass_objects str py_div c z None None fnt :: ('mesh, 'arc, 'seg) primitive list) =
         map (\<lambda>circle. Arc circle z) (all_boundary_circles c)
         @ map (\<lambda>line. LineSegment line z) (major_azimuth_ticks c)
         @ map (\<lambda>(txt, pt). Label txt (Plane (Point3D (pt_x pt) (pt_y pt) z))
                  (maj_txt py_div c) fnt (Some 1) (Some 3))
             (zip (MAJOR_TEXT c) (major_azimuth_points c))
         @ map (\<lambda>line. LineSegment line z) (minor_azimuth_ticks c)
         @ map (\<lambda>(txt, pt). Label txt (Plane (Point3D (pt_x pt) (pt_y pt) z))
                  (min_txt py_div c) fnt (Some 1) (Some 3))
             (zip (MINOR_TEXT c) (minor_azimuth_points c))
    \<and> take 3 (compass_objects str py_div c z None None fnt :: ('mesh, 'arc, 'seg) primitive list) =
         map (\<lambda>circle. Arc circle z) (all_boundary_circles c)"
proof -
  have eq: "(compass_objects str py_div c z None None fnt :: ('mesh, 'arc, 'seg) primitive list) =
         map (\<lambda>circle. Arc circle z) (all_boundary_circles c)
         @ map (\<lambda>line. LineSegment line z) (major_azimuth_ticks c)
         @ map (\<lambda>(txt, pt). Label txt (Plane (Point3D (pt_x pt) (pt_y pt) z))
                  (maj_txt py_div c) fnt (Some 1) (Some 3))
             (zip (MAJOR_TEXT c) (major_azimuth_points c))
         @ map (\<lambda>line. LineSegment line z) (minor_azimuth_ticks c)
         @ map (\<lambda>(txt, pt). Label txt (Plane (Point3D (pt_x pt) (pt_y pt) z))
                  (min_txt py_div c) fnt (Some 1) (Some 3))
             (zip (MINOR_TEXT c) (minor_azimuth_points c))"
    by (simp add: compass_objects_None_None from_arc2d_def from_linesegment2d_def
          label_at_def text_objects_def)
  have len: "length (compass_objects str py_div c z None None fnt :: ('mesh, 'arc, 'seg) primitive list)
           = 3 + 2 * major_count + 2 * minor_count"
    using assms by (simp add: eq)
  have first: "take 3 (compass_objects str py_div c z None None fnt :: ('mesh, 'arc, 'seg) primitive list) =
         map (\<lambda>circle. Arc circle z) (all_boundary_circles c)"
    using assms(1) by (simp add: eq)
  from len eq first show ?thesis by blast
qed

theorem compass_objects_default_layout_witness:
  "(compass_objects str_table (/) example_compass 0 None None ''Arial''
      :: (nat, nat, real) primitive list) =
     [Arc 1 0, Arc 2 0, Arc 3 0,
      LineSegment 0 0, LineSegment 180 0,
      Label ''N'' (Plane (Point3D 0 110 0)) 5 ''Arial'' (Some 1) (Some 3),
      Label ''S'' (Plane (Point3D 0 (- 110) 0)) 5 ''Arial'' (Some 1) (Some 3),
      LineSegment 45 0,
      Label ''NE'' (Plane (Point3D 78 78 0)) (5 / 2) ''Arial'' (Some 1) (Some 3)]
   \<and> length (compass_objects str_table (/) example_compass 0 None None ''Arial''
      :: (nat, nat, real) primitive list) = 3 + 2 * 2 + 2 * 1"
  using compass_objects_default_layout [of example_compass 2 1 str_table "(/)" 0 "''Arial''",
      where ?'mesh = nat]
  by (simp add: example_compass_def maj_txt_def min_txt_def)

lemma compass_objects_append:
  "compass_objects str py_div c z custom_angles projection fnt =
     altitude_block str py_div c z projection fnt (compass_objects str py_div c z custom_angles None fnt)"
  by (simp add: compass_objects_def altitude_block_None)



text \<open>
  Claim C3. When the title-cased projection name is \<open>Orthographic\<close>, the result
  is the result without projection followed by one arc at height \<open>z\<close> per
  orthographic altitude circle and then one label per pair of an altitude and an
  orthographic altitude point, with text \<open>str\<close> of the altitude, height \<open>min_txt\<close>
  and justification center (1) / baseline (0). When it is \<open>Stereographic\<close>, the
  same holds with the stereographic circles and points.
\<close>

theorem compass_objects_projection:
  "(str_title name = ''Orthographic'' \<longrightarrow>
      (compass_objects str py_div c z custom_angles (Some name) fnt :: ('mesh, 'arc, 'seg) primitive list) =
        compass_objects str py_div c z custom_angles None fnt
        @ map (\<lambda>circle. Arc circle z) (orthographic_altitude_circles c)
        @ map (\<lambda>(altitude, pt). Label (str altitude) (Plane (Point3D (pt_x pt) (pt_y pt) z))
                 (min_txt py_div c) fnt (Some 1) (Some 0))
            (zip (ALTITUDES c) (orthographic_altitude_points c)))
   \<and> (str_title name = ''Stereographic'' \<longrightarrow>
      (compass_objects str py_div c z custom_angles (Some name) fnt :: ('mesh, 'arc, 'seg) primitive list) =
        compass_objects str py_div c z custom_angles None fnt
        @ map (\<lambda>circle. Arc circle z) (stereographic_altitude_circles c)
        @ map (\<lambda>(altitude, pt). Label (str altitude) (Plane (Point3D (pt_x pt) (pt_y pt) z))
                 (min_txt py_div c) fnt (Some 1) (Some 0))
            (zip (ALTITUDES c) (stereographic_altitude_points c)))"
proof (intro conjI impI)
  assume "str_title name = ''Orthographic''"
  then show "(compass_objects str py_div c z custom_angles (Some name) fnt
               :: ('mesh, 'arc, 'seg) primitive list) =
        compass_objects str py_div c z custom_angles None fnt
        @ map (\<lambda>circle. Arc circle z) (orthographic_altitude_circles c)
        @ map (\<lambda>(altitude, pt). Label (str altitude) (Plane (Point3D (pt_x pt) (pt_y pt) z))
                 (min_txt py_div c) fnt (Some 1) (Some 0))
            (zip (ALTITUDES c) (orthographic_altitude_points c))"
    by (simp add: compass_objects_append [of str py_div c z custom_angles "Some name"]
          altitude_block_orthographic from_arc2d_def label_at_def text_objects_def)
next
  assume "str_title name = ''Stereographic''"
  then show "(compass_objects str py_div c z custom_angles (Some name) fnt
               :: ('mesh, 'arc, 'seg) primitive list) =
        compass_objects str py_div c z custom_angles None fnt
        @ map (\<lambda>circle. Arc circle z) (stereographic_altitude_circles c)
        @ map (\<lambda>(altitude, pt). Label (str altitude) (Plane (Point3D (pt_x pt) (pt_y pt) z))
                 (min_txt py_div c) fnt (Some 1) (Some 0))
            (zip (ALTITUDES c) (stereographic_altitude_points c))"
    by (simp add: compass_objects_append [of str py_div c z custom_angles "Some name"]
          altitude_block_stereographic from_arc2d_def label_at_def text_objects_def)
qed

lemma str_title_STEREOGRAPHIC: "str_title ''STEREOGRAPHIC'' = ''Stereographic''"
  by code_simp

lemma str_title_ORTHOGRAPHIC: "str_title ''ORTHOGRAPHIC'' = ''Orthographic''"
  by code_simp

lemma str_title_Orthographic: "str_title ''Orthographic'' = ''Orthographic''"
  by code_simp

lemma str_title_Stereographic: "str_title ''Stereographic'' = ''Stereographic''"
  by code_simp

lemma str_title_Unknown: "str_title ''Unknown'' = ''Unknown''"
  by code_simp

theorem compass_objects_projection_witness:
  "(compass_objects str_table (/) example_compass 0 (Some [45]) (Some ''orthographic'') ''Arial''
      :: (nat, nat, real) primitive list) =
     [Arc 1 0, Arc 2 0, Arc 3 0, LineSegment 45 0,
      Label ''45'' (Plane (Point3D 45 110 0)) 5 ''Arial'' (Some 1) (Some 3),
      Arc 4 0, Arc 5 0,
      Label ''10'' (Plane (Point3D 0 98 0)) (5 / 2) ''Arial'' (Some 1) (Some 0),
      Label ''20'' (Plane (Point3D 0 94 0)) (5 / 2) ''Arial'' (Some 1) (Some 0)]
   \<and> (compass_objects str_table (/) example_compass 0 (Some [45]) (Some ''STEREOGRAPHIC'') ''Arial''
      :: (nat, nat, real) primitive list) =
     [Arc 1 0, Arc 2 0, Arc 3 0, LineSegment 45 0,
      Label ''45'' (Plane (Point3D 45 110 0)) 5 ''Arial'' (Some 1) (Some 3),
      Arc 6 0, Arc 7 0,
      Label ''10'' (Plane (Point3D 0 84 0)) (5 / 2) ''Arial'' (Some 1) (Some 0),
      Label ''20'' (Plane (Point3D 0 70 0)) (5 / 2) ''Arial'' (Some 1) (Some 0)]"
proof -
  have none: "(compass_objects str_table (/) example_compass 0 (Some [45]) None ''Arial''
      :: (nat, nat, real) primitive list) =
     [Arc 1 0, Arc 2 0, Arc 3 0, LineSegment 45 0,
      Label ''45'' (Plane (Point3D 45 110 0)) 5 ''Arial'' (Some 1) (Some 3)]"
    by (simp add: compass_objects_def boundary_block_eq azimuth_block_Some altitude_block_None
          example_compass_def maj_txt_def str_table_def from_arc2d_def from_linesegment2d_def
          label_at_def text_objects_def)
  show ?thesis
    using compass_objects_projection [where ?'mesh = nat,
        of "''orthographic''" str_table "(/)" example_compass 0 "Some [45]" "''Arial''"]
      compass_objects_projection [where ?'mesh = nat,
        of "''STEREOGRAPHIC''" str_table "(/)" example_compass 0 "Some [45]" "''Arial''"]
    by (simp add: str_title_orthographic str_title_STEREOGRAPHIC none)
       (simp add: example_compass_def maj_txt_def min_txt_def str_table_def)
qed

text \<open>
  Claim C4. Projection names that differ in casing only give the same result:
  names with the same lower-case form are treated alike, every casing of
  \<open>orthographic\<close> is title-cased to \<open>Orthographic\<close> and every casing of
  \<open>stereographic\<close> to \<open>Stereographic\<close>; in particular \<open>orthographic\<close>,
  \<open>Orthographic\<close> and \<open>ORTHOGRAPHIC\<close> give one result, and so do the three
  spellings of \<open>stereographic\<close>.
\<close>

theorem compass_objects_casing:
  "(str_lower p = str_lower q \<longrightarrow>
      (compass_objects str py_div c z custom_angles (Some p) fnt :: ('mesh, 'arc, 'seg) primitive list)
        = compass_objects str py_div c z custom_angles (Some q) fnt)
   \<and> (str_lower p = ''orthographic'' \<longrightarrow> str_title p = ''Orthographic'')
   \<and> (str_lower p = ''stereographic'' \<longrightarrow> str_title p = ''Stereographic'')
   \<and> (compass_objects str py_div c z custom_angles (Some ''orthographic'') fnt
         :: ('mesh, 'arc, 'seg) primitive list)
        = compass_objects str py_div c z custom_angles (Some ''Orthographic'') fnt
   \<and> (compass_objects str py_div c z custom_angles (Some ''ORTHOGRAPHIC'') fnt
         :: ('mesh, 'arc, 'seg) primitive list)
        = compass_objects str py_div c z custom_angles (Some ''Orthographic'') fnt
   \<and> (compass_objects str py_div c z custom_angles (Some ''stereographic'') fnt
         :: ('mesh, 'arc, 'seg) primitive list)
        = compass_objects str py_div c z custom_angles (Some ''Stereographic'') fnt
   \<and> (compass_objects str py_div c z custom_angles (Some ''STEREOGRAPHIC'') fnt
         :: ('mesh, 'arc, 'seg) primitive list)
        = compass_objects str py_div c z custom_angles (Some ''Stereographic'') fnt"
proof -
  have gen: "\<And>a b. str_title a = str_title b \<Longrightarrow>
      (compass_objects str py_div c z custom_angles (Some a) fnt :: ('mesh, 'arc, 'seg) primitive list)
        = compass_objects str py_div c z custom_angles (Some b) fnt"
    by (simp add: compass_objects_def altitude_block_def)
  have 1: "str_lower p = str_lower q \<longrightarrow>
      (compass_objects str py_div c z custom_angles (Some p) fnt :: ('mesh, 'arc, 'seg) primitive list)
        = compass_objects str py_div c z custom_angles (Some q) fnt"
    using gen [of p q] str_title_casing [of p q] by blast
  have 2: "str_lower p = ''orthographic'' \<longrightarrow> str_title p = ''Orthographic''"
    using str_title_lower [of p] str_title_orthographic by auto
  have 3: "str_lower p = ''stereographic'' \<longrightarrow> str_title p = ''Stereographic''"
    using str_title_lower [of p] str_title_stereographic by auto
  have 4: "(compass_objects str py_div c z custom_angles (Some ''orthographic'') fnt
         :: ('mesh, 'arc, 'seg) primitive list)
        = compass_objects str py_div c z custom_angles (Some ''Orthographic'') fnt"
    by (rule gen) (simp add: str_title_orthographic str_title_Orthographic)
  have 5: "(compass_objects str py_div c z custom_angles (Some ''ORTHOGRAPHIC'') fnt
         :: ('mesh, 'arc, 'seg) primitive list)
        = compass_objects str py_div c z custom_angles (Some ''Orthographic'') fnt"
    by (rule gen) (simp add: str_title_ORTHOGRAPHIC str_title_Orthographic)
  have 6: "(compass_objects str py_div c z custom_angles (Some ''stereographic'') fnt
         :: ('mesh, 'arc, 'seg) primitive list)
        = compass_objects str py_div c z custom_angles (Some ''Stereographic'') fnt"
    by (rule gen) (simp add: str_title_stereographic str_title_Stereographic)
  have 7: "(compass_objects str py_div c z custom_angles (Some ''STEREOGRAPHIC'') fnt
         :: ('mesh, 'arc, 'seg) primitive list)
        = compass_objects str py_div c z custom_angles (Some ''Stereographic'') fnt"
    by (rule gen) (simp add: str_title_STEREOGRAPHIC str_title_Stereographic)
  from 1 2 3 4 5 6 7 show ?thesis by blast
qed

lemma str_lower_OrthoGraphic: "str_lower ''OrthoGRAPHIC'' = ''orthographic''"
  by code_simp

lemma str_lower_orthographic: "str_lower ''orthographic'' = ''orthographic''"
  by code_simp

theorem compass_objects_casing_witness:
  "str_lower ''OrthoGRAPHIC'' = str_lower ''orthographic''
   \<and> str_title ''OrthoGRAPHIC'' = ''Orthographic''
   \<and> (compass_objects str_table (/) example_compass 0 None (Some ''OrthoGRAPHIC'') ''Arial''
        :: (nat, nat, real) primitive list)
      = compass_objects str_table (/) example_compass 0 None (Some ''orthographic'') ''Arial''
   \<and> (compass_objects str_table (/) example_compass 0 None (Some ''ORTHOGRAPHIC'') ''Arial''
        :: (nat, nat, real) primitive list)
      = compass_objects str_table (/) example_compass 0 None (Some ''Orthographic'') ''Arial''"
  using compass_objects_casing [where ?'mesh = nat,
      of "''OrthoGRAPHIC''" "''orthographic''" str_table "(/)" example_compass 0 None "''Arial''"]
  by (simp add: str_lower_OrthoGraphic str_lower_orthographic)

text \<open>
  Claim C5. A projection name whose title-cased form is neither \<open>Orthographic\<close>
  nor \<open>Stereographic\<close> adds nothing: the result, and so its length, is the one
  for \<open>projection = None\<close>, and no error is raised.
\<close>

theorem compass_objects_unrecognized:
  assumes "str_title name \<noteq> ''Orthographic''"
    and "str_title name \<noteq> ''Stereographic''"
  shows "(compass_objects str py_div c z custom_angles (Some name) fnt
           :: ('mesh, 'arc, 'seg) primitive list)
           = compass_objects str py_div c z custom_angles None fnt
    \<and> length (compass_objects str py_div c z custom_angles (Some name) fnt
           :: ('mesh, 'arc, 'seg) primitive list)
         = length (compass_objects str py_div c z custom_angles None fnt
           :: ('mesh, 'arc, 'seg) primitive list)"
  using assms by (simp add: compass_objects_def altitude_block_other altitude_block_None)

theorem compass_objects_unrecognized_witness:
  "str_title ''Unknown'' \<noteq> ''Orthographic'' \<and> str_title ''Unknown'' \<noteq> ''Stereographic''
   \<and> (compass_objects str_table (/) example_compass 0 None (Some ''Unknown'') ''Arial''
        :: (nat, nat, real) primitive list)
      = compass_objects str_table (/) example_compass 0 None None ''Arial''
   \<and> length (compass_objects str_table (/) example_compass 0 None (Some ''Unknown'') ''Arial''
        :: (nat, nat, real) primitive list) = 9"
proof -
  have a: "str_title ''Unknown'' \<noteq> ''Orthographic''"
    by (simp add: str_title_Unknown)
  have b: "str_title ''Unknown'' \<noteq> ''Stereographic''"
    by (simp add: str_title_Unknown)
  show ?thesis
    using a b compass_objects_unrecognized [OF a b, where ?'mesh = nat,
        of str_table "(/)" example_compass 0 None "''Arial''"]
    by (simp add: compass_objects_None_None example_compass_def)
qed

end
